theory Spec2Isabelle
  imports Main
begin

section \<open>The values the program handles\<close>

text \<open>
  The program is \<^verbatim>\<open>Frontend/app.js\<close>: an Express application with one route, whose
  handler sends one statement over one MySQL connection and forwards a field of the first
  row of the result. The callback of \<^verbatim>\<open>db.query\<close> receives two JavaScript values,
  \<^verbatim>\<open>err\<close> and \<^verbatim>\<open>results\<close>; the model keeps the values such a callback can be
  given: \<^verbatim>\<open>undefined\<close>, \<^verbatim>\<open>null\<close>, strings, arrays and objects (an error is an
  object). A property key is an array index or a name.
\<close>

datatype key = Index nat | Name string

datatype jsval =
    JUndefined
  | JNull
  | JStr string
  | JArr "jsval list"
  | JObj "(key \<times> jsval) list"

text \<open>
  What escapes a function that does not return: the value of a \<^verbatim>\<open>throw\<close> statement, or
  the \<^verbatim>\<open>TypeError\<close> the runtime raises when a property of \<^verbatim>\<open>undefined\<close> or
  \<^verbatim>\<open>null\<close> is read.
\<close>

datatype js_exn = Thrown jsval | TypeError

text \<open>The test of \<^verbatim>\<open>if (err)\<close>: JavaScript's conversion to a boolean.\<close>

fun truthy :: "jsval \<Rightarrow> bool" where
  "truthy JUndefined = False"
| "truthy JNull = False"
| "truthy (JStr s) = (s \<noteq> [])"
| "truthy (JArr xs) = True"
| "truthy (JObj fs) = True"

text \<open>
  Property access \<^verbatim>\<open>v[i]\<close> and \<^verbatim>\<open>v.name\<close>. Reading from \<^verbatim>\<open>undefined\<close> or
  \<^verbatim>\<open>null\<close> raises; an index past the end of an array or a string, and a name an object
  does not have, give \<^verbatim>\<open>undefined\<close>. Only own data properties are modelled (the program
  reads \<^verbatim>\<open>[0]\<close> and \<^verbatim>\<open>.message\<close>, neither of which a prototype of these values
  supplies).
\<close>

fun get_prop :: "jsval \<Rightarrow> key \<Rightarrow> js_exn + jsval" where
  "get_prop JUndefined k = Inl TypeError"
| "get_prop JNull k = Inl TypeError"
| "get_prop (JStr s) (Index i) = Inr (if i < length s then JStr [s ! i] else JUndefined)"
| "get_prop (JStr s) (Name n) = Inr JUndefined"
| "get_prop (JArr xs) (Index i) = Inr (if i < length xs then xs ! i else JUndefined)"
| "get_prop (JArr xs) (Name n) = Inr JUndefined"
| "get_prop (JObj fs) k = Inr (case map_of fs k of None \<Rightarrow> JUndefined | Some v \<Rightarrow> v)"

section \<open>Requests and responses\<close>

text \<open>
  The handler is called with the request and the response object of Express. The request
  has its method, its URL and what Express parsed from it, the headers as Node delivers
  them (names in lower case, one value for each name) and the body.

  The response object is linked to its request (\<^verbatim>\<open>res.req\<close>) and to the settings of
  the application, of which \<^verbatim>\<open>res.send\<close> reads the function that computes the entity
  tag of a body (\<^verbatim>\<open>app.get('etag fn')\<close>; by default a weak tag made of the length and
  a hash of the body). That function is a parameter of the model; it is given the value
  sent. A new response has Node's default status code 200 and nothing sent.
\<close>

record request =
  req_method :: string
  url :: string
  params :: "(string \<times> string) list"
  query_string :: "(string \<times> string) list"
  headers :: "(string \<times> string) list"
  body :: string

record response =
  res_req :: request
  res_etag :: "jsval \<Rightarrow> string option"
  statusCode :: nat
  sent :: "jsval option"

definition new_response :: "(jsval \<Rightarrow> string option) \<Rightarrow> request \<Rightarrow> response" where
  "new_response etag rq = \<lparr>res_req = rq, res_etag = etag, statusCode = 200, sent = None\<rparr>"

subsection \<open>Conditional requests\<close>

text \<open>
  \<^verbatim>\<open>res.send\<close> answers a conditional request whose validators still hold with status
  304 and no body. The test is \<^verbatim>\<open>req.fresh\<close>, which calls the package \<^verbatim>\<open>fresh\<close> on
  the request headers and the entity tag of the response. The model follows Express 4,
  the line of releases that runs on the Node 14 image the repository builds on. The
  program sets no \<^verbatim>\<open>Last-Modified\<close> header, so a request with \<^verbatim>\<open>If-Modified-Since\<close>
  is never fresh.
\<close>

text \<open>A header value counts when it is there and not empty.\<close>

definition given :: "string option \<Rightarrow> bool" where
  "given h = (case h of None \<Rightarrow> False | Some v \<Rightarrow> v \<noteq> [])"

fun split_commas :: "string \<Rightarrow> string list" where
  "split_commas [] = [[]]"
| "split_commas (c # cs) =
     (if c = CHR '','' then [] # split_commas cs
      else (case split_commas cs of [] \<Rightarrow> [[c]] | p # ps \<Rightarrow> (c # p) # ps))"

definition trim :: "(char \<Rightarrow> bool) \<Rightarrow> string \<Rightarrow> string" where
  "trim p s = rev (dropWhile p (rev (dropWhile p s)))"

text \<open>The characters of a header value that the class \<^verbatim>\<open>\s\<close> of a regular expression matches.\<close>

definition is_space :: "char \<Rightarrow> bool" where
  "is_space c =
     (c = CHR 0x09 \<or> c = CHR 0x0A \<or> c = CHR 0x0B \<or> c = CHR 0x0C \<or> c = CHR 0x0D \<or>
      c = CHR 0x20 \<or> c = CHR 0xA0)"

text \<open>
  \<^verbatim>\<open>Cache-Control\<close> has the directive \<^verbatim>\<open>no-cache\<close>: one of its comma-separated parts
  is that word, blanks around it apart.
\<close>

definition no_cache :: "string \<Rightarrow> bool" where
  "no_cache c = list_ex (\<lambda>p. trim is_space p = ''no-cache'') (split_commas c)"

text \<open>The tags listed in \<^verbatim>\<open>If-None-Match\<close>: its comma-separated parts without the spaces around them.\<close>

definition parseTokenList :: "string \<Rightarrow> string list" where
  "parseTokenList s = map (trim (\<lambda>c. c = CHR '' '')) (split_commas s)"

definition tag_matches :: "string \<Rightarrow> string \<Rightarrow> bool" where
  "tag_matches etag m = (m = etag \<or> m = ''W/'' @ etag \<or> ''W/'' @ m = etag)"

definition fresh :: "(string \<times> string) list \<Rightarrow> string option \<Rightarrow> bool" where
  "fresh hs etag =
     (let modifiedSince = map_of hs ''if-modified-since'';
          noneMatch = map_of hs ''if-none-match'';
          cacheControl = map_of hs ''cache-control''
      in if \<not> given modifiedSince \<and> \<not> given noneMatch then False
         else if (case cacheControl of None \<Rightarrow> False | Some c \<Rightarrow> no_cache c) then False
         else if (case noneMatch of
                    None \<Rightarrow> False
                  | Some nm \<Rightarrow>
                      nm \<noteq> [] \<and> nm \<noteq> ''*'' \<and>
                      (case etag of
                         None \<Rightarrow> True
                       | Some t \<Rightarrow> t = [] \<or> \<not> list_ex (tag_matches t) (parseTokenList nm)))
              then False
         else if given modifiedSince then False
         else True)"

text \<open>A request has no validators when it carries neither of the two conditional headers.\<close>

definition unconditional :: "request \<Rightarrow> bool" where
  "unconditional rq =
     (\<not> given (map_of (headers rq) ''if-modified-since'') \<and>
      \<not> given (map_of (headers rq) ''if-none-match''))"

text \<open>
  \<^verbatim>\<open>req.fresh\<close>: only for \<^verbatim>\<open>GET\<close> and \<^verbatim>\<open>HEAD\<close>, and only when the status so far
  is a success or 304.
\<close>

definition req_fresh :: "response \<Rightarrow> string option \<Rightarrow> bool" where
  "req_fresh res etag =
     ((req_method (res_req res) = ''GET'' \<or> req_method (res_req res) = ''HEAD'') \<and>
      ((200 \<le> statusCode res \<and> statusCode res < 300) \<or> statusCode res = 304) \<and>
      fresh (headers (res_req res)) etag)"

text \<open>
  \<^verbatim>\<open>res.send(v)\<close>: the entity tag is computed unless \<^verbatim>\<open>v\<close> is \<^verbatim>\<open>undefined\<close>; a
  fresh request turns the status into 304; with status 204 or 304 the body is replaced by
  the empty string; a \<^verbatim>\<open>HEAD\<close> request gets no body. Otherwise the status stays as it
  is and \<^verbatim>\<open>v\<close> is written as the body (\<open>sent\<close> holds the value: a string is written as
  it is, \<^verbatim>\<open>undefined\<close> as nothing).
\<close>

definition send :: "jsval \<Rightarrow> response \<Rightarrow> response" where
  "send v res =
     (let etag = (case v of JUndefined \<Rightarrow> None | _ \<Rightarrow> res_etag res v);
          status = (if req_fresh res etag then 304 else statusCode res);
          chunk = (if status = 204 \<or> status = 304 then JStr [] else v)
      in res\<lparr>statusCode := status,
             sent := Some (if req_method (res_req res) = ''HEAD'' then JUndefined else chunk)\<rparr>)"

section \<open>The process state\<close>

text \<open>
  \<^verbatim>\<open>mysql.createConnection\<close> takes the four settings and returns a connection object.
  The state of the process lists the connection objects created so far, the routes
  registered, the port the server listens on, the lines written to the console and, as a
  history, every statement sent together with the connection it was sent on.
\<close>

record db_config =
  host :: string
  user :: string
  password :: string
  database :: string

record connection =
  ident :: nat
  config :: db_config

record server =
  connections :: "connection list"
  routes :: "(string \<times> string) list"
  listening :: "nat option"
  console :: "string list"
  issued :: "(connection \<times> string) list"

definition initial :: server where
  "initial = \<lparr>connections = [], routes = [], listening = None, console = [], issued = []\<rparr>"

definition createConnection :: "db_config \<Rightarrow> server \<Rightarrow> connection \<times> server" where
  "createConnection cfg s =
     (let c = \<lparr>ident = length (connections s), config = cfg\<rparr>
      in (c, s\<lparr>connections := connections s @ [c]\<rparr>))"

definition app_get :: "string \<Rightarrow> server \<Rightarrow> server" where
  "app_get path s = s\<lparr>routes := routes s @ [(''GET'', path)]\<rparr>"

text \<open>Decimal digits of a number, for the template string of the start-up message.\<close>

fun digits :: "nat \<Rightarrow> string" where
  "digits n =
     (if n < 10 then [char_of (48 + n)]
      else digits (n div 10) @ [char_of (48 + n mod 10)])"

declare digits.simps [simp del]

definition app_listen :: "nat \<Rightarrow> server \<Rightarrow> server" where
  "app_listen p s =
     s\<lparr>listening := Some p,
       console := console s @ [''Frontend running on http://localhost:'' @ digits p]\<rparr>"

section \<open>The database server\<close>

text \<open>
  The database server is outside the program. What it hands to the callback of
  \<^verbatim>\<open>db.query\<close> (the pair \<^verbatim>\<open>err\<close>, \<^verbatim>\<open>results\<close>) is a parameter of the model: a
  function of the connection and of the statement text, one for each request since the
  server may be up for one request and down for the next. The call sets no timeout, so
  the callback may also never be called: that is the value \<open>None\<close>.
\<close>

type_synonym dbms = "connection \<Rightarrow> string \<Rightarrow> (jsval \<times> jsval) option"

definition db_query ::
  "dbms \<Rightarrow> connection \<Rightarrow> string \<Rightarrow> server \<Rightarrow> (jsval \<times> jsval) option \<times> server" where
  "db_query d c sql s = (d c sql, s\<lparr>issued := issued s @ [(c, sql)]\<rparr>)"

text \<open>
  A statement of the form \<^verbatim>\<open>SELECT "<literal>" AS <alias>\<close> names no table. A MySQL
  server answers it with one row that has one column, \<^verbatim>\<open><alias>\<close>, holding the literal;
  the driver delivers it as an array of one object. \<open>literal_select\<close> recognises the form
  (a literal without quotes or escapes, an alias without blanks or quotes) and
  \<open>select_rows\<close> is that answer.
\<close>

definition strip_prefix :: "string \<Rightarrow> string \<Rightarrow> string option" where
  "strip_prefix p s = (if take (length p) s = p then Some (drop (length p) s) else None)"

definition plain :: "char \<Rightarrow> bool" where
  "plain c = (c \<noteq> CHR 0x22 \<and> c \<noteq> CHR 0x5C \<and> c \<noteq> CHR 0x27 \<and> c \<noteq> CHR '' '')"

definition literal_select :: "string \<Rightarrow> (string \<times> string) option" where
  "literal_select q =
     (case strip_prefix (''SELECT '' @ [CHR 0x22]) q of
        None \<Rightarrow> None
      | Some r \<Rightarrow>
          (case strip_prefix ([CHR 0x22] @ '' AS '') (dropWhile (\<lambda>c. c \<noteq> CHR 0x22) r) of
             None \<Rightarrow> None
           | Some a \<Rightarrow>
               (let lit = takeWhile (\<lambda>c. c \<noteq> CHR 0x22) r
                in if a \<noteq> [] \<and> list_all plain a \<and> CHR 0x5C \<notin> set lit
                   then Some (a, lit) else None)))"

definition select_rows :: "string \<Rightarrow> jsval option" where
  "select_rows q =
     (case literal_select q of
        None \<Rightarrow> None
      | Some (a, lit) \<Rightarrow> Some (JArr [JObj [(Name a, JStr lit)]]))"

text \<open>
  A query succeeds when the callback is given \<^verbatim>\<open>null\<close> as the error and the answer of
  the server to the statement.
\<close>

definition succeeds :: "string \<Rightarrow> (jsval \<times> jsval) option \<Rightarrow> bool" where
  "succeeds sql reply =
     (case reply of
        None \<Rightarrow> False
      | Some r \<Rightarrow> fst r = JNull \<and> select_rows sql = Some (snd r))"

section \<open>The program\<close>

definition PORT :: nat where
  "PORT = 3000"

definition QUERY :: string where
  \<open>QUERY = ''SELECT "Welcome to the 2-tier Dockerized App" AS message''\<close>

text \<open>
  The callback given to \<^verbatim>\<open>db.query\<close>:
  \<^verbatim>\<open>(err, results) => { if (err) throw err; res.send(results[0].message); }\<close>
  It runs when the driver has the answer, outside the route handler's own call, so what
  it throws is caught by nothing in the program.
\<close>

definition query_callback :: "response \<Rightarrow> jsval \<Rightarrow> jsval \<Rightarrow> js_exn + response" where
  "query_callback res err results =
     (if truthy err then Inl (Thrown err)
      else (case get_prop results (Index 0) of
              Inl e \<Rightarrow> Inl e
            | Inr row \<Rightarrow>
                (case get_prop row (Name ''message'') of
                   Inl e \<Rightarrow> Inl e
                 | Inr m \<Rightarrow> Inr (send m res))))"

text \<open>
  The route handler \<^verbatim>\<open>(req, res) => { db.query(QUERY, callback) }\<close>, with \<^verbatim>\<open>db\<close> the
  connection it closes over. The result is what the request ends with and the state
  afterwards: \<open>None\<close> when the callback is never called (the request stays without a
  response), otherwise an exception that escapes or the response sent.
\<close>

definition handler ::
  "connection \<Rightarrow> dbms \<Rightarrow> request \<Rightarrow> response \<Rightarrow> server \<Rightarrow>
     (js_exn + response) option \<times> server" where
  "handler db d rq res s =
     (case db_query d db QUERY s of
        (None, s') \<Rightarrow> (None, s')
      | (Some (err, results), s') \<Rightarrow> (Some (query_callback res err results), s'))"

text \<open>What the client sees of that result: the status and the body of the response, if there is one.\<close>

definition status_and_body :: "(js_exn + response) option \<Rightarrow> (nat \<times> jsval option) option" where
  "status_and_body out =
     (case out of Some (Inr res) \<Rightarrow> Some (statusCode res, sent res) | _ \<Rightarrow> None)"

text \<open>
  The top level of the module, run once when the process starts, in the order of the file:
  create the connection, register the route, listen. \<open>env\<close> stands for the environment
  variables of the process.
\<close>

definition startup :: "(string \<rightharpoonup> string) \<Rightarrow> connection \<times> server" where
  "startup env =
     (case createConnection
             \<lparr>host = ''db'', user = ''myuser'', password = ''mypassword'', database = ''mydb''\<rparr>
             initial of
        (db, s) \<Rightarrow> (db, app_listen PORT (app_get ''/'' s)))"

text \<open>
  Serving the requests that reach the route, one after the other, each with the behaviour
  of the database server at its time and with a new response object linked to it. A
  request whose callback is never called gets no response (\<open>None\<close> in the list) and the
  process goes on. An exception that escapes the callback is uncaught and ends the
  process: the requests after it are not served.
\<close>

fun serve ::
  "(jsval \<Rightarrow> string option) \<Rightarrow> connection \<Rightarrow> (dbms \<times> request) list \<Rightarrow> server \<Rightarrow>
     response option list \<times> js_exn option \<times> server" where
  "serve etag db [] s = ([], None, s)"
| "serve etag db ((d, rq) # rest) s =
     (case handler db d rq (new_response etag rq) s of
        (Some (Inl e), s') \<Rightarrow> ([], Some e, s')
      | (Some (Inr res), s') \<Rightarrow>
          (case serve etag db rest s' of (rs, e, s'') \<Rightarrow> (Some res # rs, e, s''))
      | (None, s') \<Rightarrow>
          (case serve etag db rest s' of (rs, e, s'') \<Rightarrow> (None # rs, e, s'')))"

definition run ::
  "(jsval \<Rightarrow> string option) \<Rightarrow> (string \<rightharpoonup> string) \<Rightarrow> (dbms \<times> request) list \<Rightarrow>
     response option list \<times> js_exn option \<times> server" where
  "run etag env reqs = (case startup env of (db, s) \<Rightarrow> serve etag db reqs s)"

text \<open>
  Database servers to run the program against: one that is up and answers the statements
  it understands, one that cannot be reached and fails every statement with the given
  error, one that hands the callback a given pair whatever the statement, and one that
  never answers.
\<close>

definition statement_error :: jsval where
  "statement_error = JObj [(Name ''code'', JStr ''ER_PARSE_ERROR'')]"

definition db_up :: dbms where
  "db_up c sql =
     (case select_rows sql of
        Some r \<Rightarrow> Some (JNull, r)
      | None \<Rightarrow> Some (statement_error, JUndefined))"

definition db_down :: "jsval \<Rightarrow> dbms" where
  "db_down e c sql = Some (e, JUndefined)"

definition db_reply :: "jsval \<times> jsval \<Rightarrow> dbms" where
  "db_reply r c sql = Some r"

definition db_silent :: dbms where
  "db_silent c sql = None"

definition connect_error :: jsval where
  "connect_error = JObj [(Name ''code'', JStr ''ECONNREFUSED''), (Name ''fatal'', JStr ''true'')]"

text \<open>
  Requests to send: a bare \<^verbatim>\<open>GET /\<close>; one with a query string, a header and a body;
  and the conditional request a browser makes when it reloads a page it has cached, once
  with \<^verbatim>\<open>If-None-Match: *\<close> and once naming a tag.
\<close>

definition a_request :: request where
  "a_request =
     \<lparr>req_method = ''GET'', url = ''/'', params = [], query_string = [], headers = [], body = []\<rparr>"

definition other_request :: request where
  "other_request =
     \<lparr>req_method = ''GET'', url = ''/?name=x'', params = [], query_string = [(''name'', ''x'')],
      headers = [(''accept'', ''text/html'')], body = ''payload''\<rparr>"

definition conditional_request :: request where
  "conditional_request =
     \<lparr>req_method = ''GET'', url = ''/'', params = [], query_string = [],
      headers = [(''if-none-match'', ''*'')], body = []\<rparr>"

definition revalidating_request :: request where
  "revalidating_request =
     \<lparr>req_method = ''GET'', url = ''/'', params = [], query_string = [],
      headers = [(''if-none-match'', ''W/tag-36, W/tag-5'')], body = []\<rparr>"

text \<open>
  An entity-tag function to run the program with: it tags a string by its length. The
  theorems hold for every such function.
\<close>

definition sample_etag :: "jsval \<Rightarrow> string option" where
  "sample_etag v = (case v of JStr s \<Rightarrow> Some (''W/tag-'' @ digits (length s)) | _ \<Rightarrow> None)"

text \<open>
  A sample of traffic: two requests while the database is up, one while it is down, and
  one more after that.
\<close>

definition sample_requests :: "(dbms \<times> request) list" where
  "sample_requests =
     [(db_up, a_request), (db_up, other_request),
      (db_down connect_error, a_request), (db_up, a_request)]"

text \<open>
  Another sample: a request the database never answers, a reload with the database up,
  and a first visit.
\<close>

definition quiet_requests :: "(dbms \<times> request) list" where
  "quiet_requests = [(db_silent, a_request), (db_up, conditional_request), (db_up, a_request)]"

section \<open>Basic facts\<close>

lemma QUERY_literal:
  "literal_select QUERY = Some (''message'', ''Welcome to the 2-tier Dockerized App'')"
  by (simp add: literal_select_def QUERY_def strip_prefix_def plain_def)

lemma QUERY_rows:
  "select_rows QUERY = Some (JArr [JObj [(Name ''message'', JStr ''Welcome to the 2-tier Dockerized App'')]])"
  by (simp add: select_rows_def QUERY_literal)

lemma handler_eq:
  "handler db d rq res s =
     (map_option (\<lambda>r. query_callback res (fst r) (snd r)) (d db QUERY),
      s\<lparr>issued := issued s @ [(db, QUERY)]\<rparr>)"
  by (cases "d db QUERY") (simp_all add: handler_def db_query_def split: prod.split)

lemma callback_first_row:
  "query_callback res JNull (JArr (JObj fs # rows)) =
     Inr (send (case map_of fs (Name ''message'') of None \<Rightarrow> JUndefined | Some v \<Rightarrow> v) res)"
  by (simp add: query_callback_def)

lemma callback_success:
  assumes "succeeds QUERY (Some (err, results))"
  shows "query_callback res err results =
           Inr (send (JStr ''Welcome to the 2-tier Dockerized App'') res)"
proof -
  from assms have e: "err = JNull"
    and r: "results = JArr [JObj [(Name ''message'', JStr ''Welcome to the 2-tier Dockerized App'')]]"
    by (simp_all add: succeeds_def QUERY_rows)
  show ?thesis unfolding e r by (simp add: callback_first_row)
qed

lemma callback_error:
  "truthy err \<Longrightarrow> query_callback res err results = Inl (Thrown err)"
  by (simp add: query_callback_def)

lemma callback_sent:
  assumes "\<not> truthy err" and "query_callback res err results = Inr res'"
  shows "\<exists>row m. get_prop results (Index 0) = Inr row \<and>
                 get_prop row (Name ''message'') = Inr m \<and> res' = send m res"
  using assms by (auto simp: query_callback_def split: sum.splits)

lemma send_status: "statusCode (send v res) = statusCode res \<or> statusCode (send v res) = 304"
  by (simp add: send_def Let_def)

lemma send_body:
  assumes "statusCode (send v res) \<noteq> 304" and "statusCode (send v res) \<noteq> 204"
    and "req_method (res_req res) \<noteq> ''HEAD''"
  shows "sent (send v res) = Some v"
  using assms by (simp add: send_def Let_def split: if_splits)

lemma send_string_stale:
  assumes "req_method rq = ''GET''" and "\<not> fresh (headers rq) (etag (JStr w))"
  shows "send (JStr w) (new_response etag rq) =
           \<lparr>res_req = rq, res_etag = etag, statusCode = 200, sent = Some (JStr w)\<rparr>"
  using assms by (simp add: send_def new_response_def req_fresh_def)

lemma send_string_fresh:
  assumes "req_method rq = ''GET''" and "fresh (headers rq) (etag (JStr w))"
  shows "send (JStr w) (new_response etag rq) =
           \<lparr>res_req = rq, res_etag = etag, statusCode = 304, sent = Some (JStr [])\<rparr>"
  using assms by (simp add: send_def new_response_def req_fresh_def)

lemma unconditional_stale: "unconditional rq \<Longrightarrow> \<not> fresh (headers rq) t"
  by (simp add: unconditional_def fresh_def)

lemma callback_status:
  assumes "query_callback (new_response etag rq) err results = Inr res'"
  shows "statusCode res' = 200 \<or> statusCode res' = 304"
proof -
  from assms obtain m where "res' = send m (new_response etag rq)"
    by (auto simp: query_callback_def split: if_splits sum.splits)
  with send_status [of m "new_response etag rq"] show ?thesis
    by (simp add: new_response_def)
qed

lemma startup_eq:
  "startup env =
     (\<lparr>ident = 0, config = \<lparr>host = ''db'', user = ''myuser'', password = ''mypassword'', database = ''mydb''\<rparr>\<rparr>,
      \<lparr>connections = [\<lparr>ident = 0, config = \<lparr>host = ''db'', user = ''myuser'', password = ''mypassword'', database = ''mydb''\<rparr>\<rparr>],
       routes = [(''GET'', ''/'')],
       listening = Some 3000,
       console = [''Frontend running on http://localhost:3000''],
       issued = []\<rparr>)"
proof -
  have d: "digits 3000 = ''3000''" by code_simp
  show ?thesis
    by (simp add: startup_def createConnection_def initial_def app_get_def app_listen_def PORT_def d Let_def)
qed

lemma handler_state: "snd (handler db d rq res s) = s\<lparr>issued := issued s @ [(db, QUERY)]\<rparr>"
  by (simp add: handler_eq)

lemma serve_step:
  "serve etag db ((d, rq) # rest) s =
     (case fst (handler db d rq (new_response etag rq) s) of
        Some (Inl e) \<Rightarrow> ([], Some e, s\<lparr>issued := issued s @ [(db, QUERY)]\<rparr>)
      | Some (Inr res) \<Rightarrow>
          (case serve etag db rest (s\<lparr>issued := issued s @ [(db, QUERY)]\<rparr>) of
             (rs, e, s'') \<Rightarrow> (Some res # rs, e, s''))
      | None \<Rightarrow>
          (case serve etag db rest (s\<lparr>issued := issued s @ [(db, QUERY)]\<rparr>) of
             (rs, e, s'') \<Rightarrow> (None # rs, e, s'')))"
proof -
  obtain out s1 where h: "handler db d rq (new_response etag rq) s = (out, s1)"
    by (cases "handler db d rq (new_response etag rq) s")
  with handler_state [of db d rq "new_response etag rq" s]
  have s1: "s1 = s\<lparr>issued := issued s @ [(db, QUERY)]\<rparr>" by simp
  show ?thesis
    by (simp add: h s1 split: option.split sum.split)
qed

lemma serve_state:
  "serve etag db reqs s = (rs, e, s') \<Longrightarrow>
     s' = s\<lparr>issued := issued s @
            replicate (length rs + (case e of None \<Rightarrow> 0 | Some x \<Rightarrow> 1)) (db, QUERY)\<rparr>"
proof (induction reqs arbitrary: s rs e s')
  case Nil
  then show ?case by simp
next
  case (Cons a reqs)
  obtain d rq where a: "a = (d, rq)" by (cases a)
  let ?s1 = "s\<lparr>issued := issued s @ [(db, QUERY)]\<rparr>"
  obtain rs1 e1 s1 where t: "serve etag db reqs ?s1 = (rs1, e1, s1)"
    by (cases "serve etag db reqs ?s1")
  from Cons.IH [OF t]
  have ih: "s1 = ?s1\<lparr>issued := issued ?s1 @
              replicate (length rs1 + (case e1 of None \<Rightarrow> 0 | Some x \<Rightarrow> 1)) (db, QUERY)\<rparr>" .
  from Cons.prems have p: "serve etag db ((d, rq) # reqs) s = (rs, e, s')" by (simp add: a)
  show ?case
  proof (cases "fst (handler db d rq (new_response etag rq) s)")
    case None
    with p t have "rs = None # rs1" "e = e1" "s' = s1"
      by (simp_all add: serve_step del: serve.simps)
    with ih show ?thesis by (simp add: replicate_app_Cons_same)
  next
    case (Some out)
    show ?thesis
    proof (cases out)
      case (Inl x)
      with Some p have "rs = []" "e = Some x" "s' = ?s1"
        by (simp_all add: serve_step del: serve.simps)
      then show ?thesis by simp
    next
      case (Inr res)
      with Some p t have "rs = Some res # rs1" "e = e1" "s' = s1"
        by (simp_all add: serve_step del: serve.simps)
      with ih show ?thesis by (simp add: replicate_app_Cons_same)
    qed
  qed
qed

lemma run_eq: "run etag env reqs = serve etag (fst (startup env)) reqs (snd (startup env))"
  by (simp add: run_def case_prod_beta)

lemma run_state:
  assumes "run etag env reqs = (rs, e, s')"
  shows "s' = (snd (startup env))\<lparr>issued :=
            replicate (length rs + (case e of None \<Rightarrow> 0 | Some x \<Rightarrow> 1)) (fst (startup env), QUERY)\<rparr>"
proof -
  from assms have "serve etag (fst (startup env)) reqs (snd (startup env)) = (rs, e, s')"
    by (simp add: run_eq)
  from serve_state [OF this] show ?thesis by (simp add: startup_eq)
qed

lemma run_final:
  "snd (snd (run etag env reqs)) =
     (snd (startup env))\<lparr>issued :=
        replicate (length (fst (run etag env reqs)) +
                   (case fst (snd (run etag env reqs)) of None \<Rightarrow> 0 | Some x \<Rightarrow> 1))
          (fst (startup env), QUERY)\<rparr>"
  by (rule run_state) simp

lemma up_succeeds: "succeeds QUERY (db_up c QUERY)"
  by (simp add: succeeds_def db_up_def QUERY_rows)

lemma plain_requests: "unconditional a_request" "unconditional other_request"
  by (simp_all add: unconditional_def a_request_def other_request_def given_def)

lemma reload_fresh: "fresh (headers conditional_request) t"
  by (simp add: fresh_def conditional_request_def given_def)

lemma revalidation_fresh:
  "fresh (headers revalidating_request)
     (sample_etag (JStr ''Welcome to the 2-tier Dockerized App''))"
proof -
  have t: "sample_etag (JStr ''Welcome to the 2-tier Dockerized App'') = Some ''W/tag-36''"
    by code_simp
  have p: "parseTokenList ''W/tag-36, W/tag-5'' = [''W/tag-36'', ''W/tag-5'']"
    by (simp add: parseTokenList_def trim_def)
  show ?thesis
    by (simp add: t p fresh_def revalidating_request_def given_def tag_matches_def)
qed

lemma success_response:
  assumes "succeeds QUERY (d db QUERY)" and "req_method rq = ''GET''"
  shows "fst (handler db d rq (new_response etag rq) s) =
           Some (Inr (if fresh (headers rq) (etag (JStr ''Welcome to the 2-tier Dockerized App''))
                      then \<lparr>res_req = rq, res_etag = etag, statusCode = 304, sent = Some (JStr [])\<rparr>
                      else \<lparr>res_req = rq, res_etag = etag, statusCode = 200,
                             sent = Some (JStr ''Welcome to the 2-tier Dockerized App'')\<rparr>))"
proof -
  from assms(1) obtain err results where r: "d db QUERY = Some (err, results)"
    by (cases "d db QUERY") (auto simp: succeeds_def)
  with assms(1) have "succeeds QUERY (Some (err, results))" by simp
  then have "query_callback (new_response etag rq) err results =
               Inr (send (JStr ''Welcome to the 2-tier Dockerized App'') (new_response etag rq))"
    by (rule callback_success)
  with r assms(2) show ?thesis
    by (simp add: handler_eq send_string_stale send_string_fresh)
qed

lemma sample_run:
  "run etag env sample_requests =
     ([Some \<lparr>res_req = a_request, res_etag = etag, statusCode = 200,
              sent = Some (JStr ''Welcome to the 2-tier Dockerized App'')\<rparr>,
       Some \<lparr>res_req = other_request, res_etag = etag, statusCode = 200,
              sent = Some (JStr ''Welcome to the 2-tier Dockerized App'')\<rparr>],
      Some (Thrown connect_error),
      (snd (startup env))\<lparr>issued := replicate 3 (fst (startup env), QUERY)\<rparr>)"
proof -
  have g: "req_method a_request = ''GET''" "req_method other_request = ''GET''"
    by (simp_all add: a_request_def other_request_def)
  have up: "fst (handler c db_up rq (new_response etag rq) s) =
              Some (Inr \<lparr>res_req = rq, res_etag = etag, statusCode = 200,
                         sent = Some (JStr ''Welcome to the 2-tier Dockerized App'')\<rparr>)"
    if "unconditional rq" "req_method rq = ''GET''" for c rq s
    using success_response [where d = db_up and db = c and rq = rq and etag = etag and s = s]
          up_succeeds [of c] that unconditional_stale [OF that(1)]
    by simp
  have down: "fst (handler c (db_down connect_error) rq res s) = Some (Inl (Thrown connect_error))"
    for c rq res s
    by (simp add: handler_eq db_down_def connect_error_def callback_error)
  show ?thesis
    by (simp add: run_eq sample_requests_def serve_step up down plain_requests g startup_eq
          numeral_3_eq_3 del: serve.simps(2))
qed

lemma quiet_run:
  "run etag env quiet_requests =
     ([None,
       Some \<lparr>res_req = conditional_request, res_etag = etag, statusCode = 304,
              sent = Some (JStr [])\<rparr>,
       Some \<lparr>res_req = a_request, res_etag = etag, statusCode = 200,
              sent = Some (JStr ''Welcome to the 2-tier Dockerized App'')\<rparr>],
      None,
      (snd (startup env))\<lparr>issued := replicate 3 (fst (startup env), QUERY)\<rparr>)"
proof -
  have g: "req_method a_request = ''GET''" "req_method conditional_request = ''GET''"
    by (simp_all add: a_request_def conditional_request_def)
  have up: "fst (handler c db_up rq (new_response etag rq) s) =
           Some (Inr (if fresh (headers rq) (etag (JStr ''Welcome to the 2-tier Dockerized App''))
                      then \<lparr>res_req = rq, res_etag = etag, statusCode = 304, sent = Some (JStr [])\<rparr>
                      else \<lparr>res_req = rq, res_etag = etag, statusCode = 200,
                             sent = Some (JStr ''Welcome to the 2-tier Dockerized App'')\<rparr>))"
    if "req_method rq = ''GET''" for c rq s
    using success_response [where d = db_up and db = c and rq = rq and etag = etag and s = s]
          up_succeeds [of c] that
    by simp
  have silent: "fst (handler c db_silent rq res s) = None" for c rq res s
    by (simp add: handler_eq db_silent_def)
  show ?thesis
    by (simp add: run_eq quiet_requests_def serve_step up silent g reload_fresh
          unconditional_stale plain_requests startup_eq numeral_3_eq_3 del: serve.simps(2))
qed

section \<open>The route on success and on failure\<close>

text \<open>
  C1, as stated, fails. The claim is that every \<^verbatim>\<open>GET /\<close> made while the query succeeds
  is answered with status 200 and the welcome string as body. A browser that reloads the
  page sends \<^verbatim>\<open>If-None-Match\<close>; for such a request \<^verbatim>\<open>res.send\<close> answers 304 with an
  empty body, although the query succeeded.
\<close>

theorem reload_gets_304:
  "succeeds QUERY (db_up (fst (startup Map.empty)) QUERY) \<and>
   req_method conditional_request = ''GET'' \<and> url conditional_request = ''/'' \<and>
   fst (handler (fst (startup Map.empty)) db_up conditional_request
          (new_response sample_etag conditional_request) (snd (startup Map.empty))) =
     Some (Inr \<lparr>res_req = conditional_request, res_etag = sample_etag, statusCode = 304,
                sent = Some (JStr [])\<rparr>) \<and>
   fst (handler (fst (startup Map.empty)) db_up conditional_request
          (new_response sample_etag conditional_request) (snd (startup Map.empty))) \<noteq>
     Some (Inr \<lparr>res_req = conditional_request, res_etag = sample_etag, statusCode = 200,
                sent = Some (JStr ''Welcome to the 2-tier Dockerized App'')\<rparr>)"
proof -
  have g: "req_method conditional_request = ''GET''" "url conditional_request = ''/''"
    by (simp_all add: conditional_request_def)
  from success_response [where d = db_up and db = "fst (startup Map.empty)"
                           and rq = conditional_request and etag = sample_etag
                           and s = "snd (startup Map.empty)"]
       up_succeeds [of "fst (startup Map.empty)"] g reload_fresh
  show ?thesis by simp
qed

text \<open>
  C1, amended. A \<^verbatim>\<open>GET /\<close> made while the database is reachable and the query succeeds
  is answered with status 200 and, as its body, exactly the welcome string
  \<^verbatim>\<open>Welcome to the 2-tier Dockerized App\<close> that the query returns, unless the request is a
  conditional request that is fresh, which is answered with status 304 and an empty body.
  A request without \<^verbatim>\<open>If-None-Match\<close> and \<^verbatim>\<open>If-Modified-Since\<close> always gets the 200.
  This holds for every connection, every state of the process and every entity-tag
  function.
\<close>

theorem root_success_200_unless_fresh:
  assumes "succeeds QUERY (d db QUERY)" and "req_method rq = ''GET''"
  shows "fst (handler db d rq (new_response etag rq) s) =
           Some (Inr (if fresh (headers rq) (etag (JStr ''Welcome to the 2-tier Dockerized App''))
                      then \<lparr>res_req = rq, res_etag = etag, statusCode = 304, sent = Some (JStr [])\<rparr>
                      else \<lparr>res_req = rq, res_etag = etag, statusCode = 200,
                             sent = Some (JStr ''Welcome to the 2-tier Dockerized App'')\<rparr>)) \<and>
         (unconditional rq \<longrightarrow>
            fst (handler db d rq (new_response etag rq) s) =
              Some (Inr \<lparr>res_req = rq, res_etag = etag, statusCode = 200,
                         sent = Some (JStr ''Welcome to the 2-tier Dockerized App'')\<rparr>))"
proof -
  have r: "fst (handler db d rq (new_response etag rq) s) =
           Some (Inr (if fresh (headers rq) (etag (JStr ''Welcome to the 2-tier Dockerized App''))
                      then \<lparr>res_req = rq, res_etag = etag, statusCode = 304, sent = Some (JStr [])\<rparr>
                      else \<lparr>res_req = rq, res_etag = etag, statusCode = 200,
                             sent = Some (JStr ''Welcome to the 2-tier Dockerized App'')\<rparr>))"
    using assms by (rule success_response)
  show ?thesis
  proof (intro conjI impI)
    show "fst (handler db d rq (new_response etag rq) s) =
           Some (Inr (if fresh (headers rq) (etag (JStr ''Welcome to the 2-tier Dockerized App''))
                      then \<lparr>res_req = rq, res_etag = etag, statusCode = 304, sent = Some (JStr [])\<rparr>
                      else \<lparr>res_req = rq, res_etag = etag, statusCode = 200,
                             sent = Some (JStr ''Welcome to the 2-tier Dockerized App'')\<rparr>))"
      by (rule r)
  next
    assume "unconditional rq"
    then have "\<not> fresh (headers rq) (etag (JStr ''Welcome to the 2-tier Dockerized App''))"
      by (rule unconditional_stale)
    with r show "fst (handler db d rq (new_response etag rq) s) =
              Some (Inr \<lparr>res_req = rq, res_etag = etag, statusCode = 200,
                         sent = Some (JStr ''Welcome to the 2-tier Dockerized App'')\<rparr>)"
      by simp
  qed
qed

text \<open>The first request after start-up, a bare \<^verbatim>\<open>GET /\<close>, with the database up.\<close>

theorem root_success_200_unless_fresh_witness:
  "succeeds QUERY (db_up (fst (startup Map.empty)) QUERY) \<and>
   req_method a_request = ''GET'' \<and> unconditional a_request \<and>
   fst (handler (fst (startup Map.empty)) db_up a_request (new_response sample_etag a_request)
          (snd (startup Map.empty))) =
     Some (Inr \<lparr>res_req = a_request, res_etag = sample_etag, statusCode = 200,
                sent = Some (JStr ''Welcome to the 2-tier Dockerized App'')\<rparr>)"
proof -
  have h: "succeeds QUERY (db_up (fst (startup Map.empty)) QUERY)"
    by (rule up_succeeds)
  have g: "req_method a_request = ''GET''" by (simp add: a_request_def)
  from h g plain_requests(1)
       root_success_200_unless_fresh
         [where d = db_up and db = "fst (startup Map.empty)" and rq = a_request
            and etag = sample_etag and s = "snd (startup Map.empty)"]
  show ?thesis by blast
qed

text \<open>
  C2. When the query of a request fails, that is when the callback is given an error (any
  value that passes the test \<^verbatim>\<open>if (err)\<close>, as every error object does), the handler
  throws that error. The request ends with the exception and without a response, so no
  HTTP error response is produced; one statement was sent and it is not sent again; and
  nothing recovers: the exception ends the serving of requests, whatever requests were
  still to come.
\<close>

theorem query_error_thrown_unhandled:
  assumes "d db QUERY = Some (err, results)" and "truthy err"
  shows "handler db d rq res s =
           (Some (Inl (Thrown err)), s\<lparr>issued := issued s @ [(db, QUERY)]\<rparr>) \<and>
         serve etag db ((d, rq) # rest) s =
           ([], Some (Thrown err), s\<lparr>issued := issued s @ [(db, QUERY)]\<rparr>)"
proof -
  from assms
  have h: "handler db d rq res' s =
             (Some (Inl (Thrown err)), s\<lparr>issued := issued s @ [(db, QUERY)]\<rparr>)" for res'
    by (simp add: handler_eq callback_error)
  show ?thesis by (simp add: h)
qed

text \<open>The database refuses the connection; a second request is waiting.\<close>

theorem query_error_thrown_unhandled_witness:
  "db_down connect_error (fst (startup Map.empty)) QUERY = Some (connect_error, JUndefined) \<and>
   truthy connect_error \<and>
   handler (fst (startup Map.empty)) (db_down connect_error) a_request
       (new_response sample_etag a_request) (snd (startup Map.empty)) =
     (Some (Inl (Thrown connect_error)),
      (snd (startup Map.empty))\<lparr>issued := [(fst (startup Map.empty), QUERY)]\<rparr>) \<and>
   serve sample_etag (fst (startup Map.empty))
         [(db_down connect_error, a_request), (db_up, a_request)] (snd (startup Map.empty)) =
     ([], Some (Thrown connect_error),
      (snd (startup Map.empty))\<lparr>issued := [(fst (startup Map.empty), QUERY)]\<rparr>)"
proof -
  have h1: "db_down connect_error (fst (startup Map.empty)) QUERY = Some (connect_error, JUndefined)"
    by (simp add: db_down_def)
  have h2: "truthy connect_error" by (simp add: connect_error_def)
  from h1 h2 query_error_thrown_unhandled
               [where d = "db_down connect_error" and db = "fst (startup Map.empty)"
                  and err = connect_error and results = JUndefined and rq = a_request
                  and res = "new_response sample_etag a_request"
                  and s = "snd (startup Map.empty)" and etag = sample_etag
                  and rest = "[(db_up, a_request)]"]
  show ?thesis by (simp add: startup_eq)
qed

text \<open>
  C3, as stated, fails. The claim is that for every request the handler forwards the
  result string of its query to the client. For the request of a browser that reloads the
  page the query returns its one row with the welcome string, and the client is sent an
  empty body.
\<close>

theorem reload_gets_no_body:
  "db_up (fst (startup Map.empty)) QUERY =
     Some (JNull, JArr [JObj [(Name ''message'', JStr ''Welcome to the 2-tier Dockerized App'')]]) \<and>
   status_and_body
     (fst (handler (fst (startup Map.empty)) db_up conditional_request
             (new_response sample_etag conditional_request) (snd (startup Map.empty)))) =
     Some (304, Some (JStr [])) \<and>
   JStr [] \<noteq> JStr ''Welcome to the 2-tier Dockerized App''"
proof -
  have g: "req_method conditional_request = ''GET''"
    by (simp add: conditional_request_def)
  from success_response [where d = db_up and db = "fst (startup Map.empty)"
                           and rq = conditional_request and etag = sample_etag
                           and s = "snd (startup Map.empty)"]
       up_succeeds [of "fst (startup Map.empty)"] g reload_fresh
  have a: "status_and_body
     (fst (handler (fst (startup Map.empty)) db_up conditional_request
             (new_response sample_etag conditional_request) (snd (startup Map.empty)))) =
     Some (304, Some (JStr []))"
    by (simp add: status_and_body_def)
  have b: "db_up (fst (startup Map.empty)) QUERY =
     Some (JNull, JArr [JObj [(Name ''message'', JStr ''Welcome to the 2-tier Dockerized App'')]])"
    by (simp add: db_up_def QUERY_rows)
  from a b show ?thesis by simp
qed

text \<open>
  C3, amended. Handling a request sends exactly one statement, the text written in the
  program, which is a \<^verbatim>\<open>SELECT\<close> of a string literal under the alias \<^verbatim>\<open>message\<close>; over
  a whole run of the process every statement sent has that same text, one for each request
  handled. When the query returns one row whose one column \<^verbatim>\<open>message\<close> holds a string,
  the handler passes that string to \<^verbatim>\<open>res.send\<close>: a \<^verbatim>\<open>GET\<close> that is not a fresh
  conditional request gets it as the body of a 200 response, and a fresh one gets 304 with
  an empty body.
\<close>

theorem one_hardcoded_query:
  \<open>snd (handler db d rq res s) = s\<lparr>issued := issued s @ [(db, QUERY)]\<rparr> \<and>
   QUERY = ''SELECT "Welcome to the 2-tier Dockerized App" AS message'' \<and>
   literal_select QUERY = Some (''message'', ''Welcome to the 2-tier Dockerized App'') \<and>
   (d db QUERY = Some (JNull, JArr [JObj [(Name ''message'', JStr w)]]) \<and> req_method rq = ''GET'' \<longrightarrow>
      fst (handler db d rq (new_response etag rq) s) =
        Some (Inr (if fresh (headers rq) (etag (JStr w))
                   then \<lparr>res_req = rq, res_etag = etag, statusCode = 304, sent = Some (JStr [])\<rparr>
                   else \<lparr>res_req = rq, res_etag = etag, statusCode = 200, sent = Some (JStr w)\<rparr>))) \<and>
   map snd (issued (snd (snd (run etag env reqs)))) =
     replicate (length (fst (run etag env reqs)) +
                (case fst (snd (run etag env reqs)) of None \<Rightarrow> 0 | Some x \<Rightarrow> 1)) QUERY\<close>
proof -
  have a: "snd (handler db d rq res s) = s\<lparr>issued := issued s @ [(db, QUERY)]\<rparr>"
    by (rule handler_state)
  have b: \<open>QUERY = ''SELECT "Welcome to the 2-tier Dockerized App" AS message''\<close>
    by (simp add: QUERY_def)
  have c: "d db QUERY = Some (JNull, JArr [JObj [(Name ''message'', JStr w)]]) \<and> req_method rq = ''GET'' \<longrightarrow>
      fst (handler db d rq (new_response etag rq) s) =
        Some (Inr (if fresh (headers rq) (etag (JStr w))
                   then \<lparr>res_req = rq, res_etag = etag, statusCode = 304, sent = Some (JStr [])\<rparr>
                   else \<lparr>res_req = rq, res_etag = etag, statusCode = 200, sent = Some (JStr w)\<rparr>))"
    by (simp add: handler_eq callback_first_row send_string_stale send_string_fresh)
  have e: "map snd (issued (snd (snd (run etag env reqs)))) =
     replicate (length (fst (run etag env reqs)) +
                (case fst (snd (run etag env reqs)) of None \<Rightarrow> 0 | Some x \<Rightarrow> 1)) QUERY"
    by (subst run_final) simp
  from a b QUERY_literal c e show ?thesis by blast
qed

text \<open>
  A database that returns one row with another string, asked by a bare \<^verbatim>\<open>GET /\<close>; and
  the statements of the sample traffic.
\<close>

theorem one_hardcoded_query_witness:
  "db_reply (JNull, JArr [JObj [(Name ''message'', JStr ''hello'')]]) (fst (startup Map.empty)) QUERY =
     Some (JNull, JArr [JObj [(Name ''message'', JStr ''hello'')]]) \<and>
   req_method a_request = ''GET'' \<and>
   fst (handler (fst (startup Map.empty))
          (db_reply (JNull, JArr [JObj [(Name ''message'', JStr ''hello'')]])) a_request
          (new_response sample_etag a_request) (snd (startup Map.empty))) =
     Some (Inr \<lparr>res_req = a_request, res_etag = sample_etag, statusCode = 200,
                sent = Some (JStr ''hello'')\<rparr>) \<and>
   issued (snd (handler (fst (startup Map.empty))
                  (db_reply (JNull, JArr [JObj [(Name ''message'', JStr ''hello'')]])) a_request
                  (new_response sample_etag a_request) (snd (startup Map.empty)))) =
     [(fst (startup Map.empty), QUERY)] \<and>
   map snd (issued (snd (snd (run sample_etag Map.empty sample_requests)))) = [QUERY, QUERY, QUERY]"
proof -
  have h: "db_reply (JNull, JArr [JObj [(Name ''message'', JStr ''hello'')]])
             (fst (startup Map.empty)) QUERY =
           Some (JNull, JArr [JObj [(Name ''message'', JStr ''hello'')]])"
    by (simp add: db_reply_def)
  have g: "req_method a_request = ''GET''" by (simp add: a_request_def)
  have f: "\<not> fresh (headers a_request) (sample_etag (JStr ''hello''))"
    by (rule unconditional_stale) (rule plain_requests)
  from h g f one_hardcoded_query
           [where d = "db_reply (JNull, JArr [JObj [(Name ''message'', JStr ''hello'')]])"
              and db = "fst (startup Map.empty)" and rq = a_request and w = "''hello''"
              and res = "new_response sample_etag a_request" and s = "snd (startup Map.empty)"
              and etag = sample_etag and env = Map.empty and reqs = sample_requests]
  show ?thesis by (simp add: startup_eq sample_run numeral_3_eq_3)
qed

section \<open>What is fixed when the process starts\<close>

text \<open>
  C4. Start-up creates exactly one connection. Handling a request creates none and removes
  none, so at the end of any run the process still has that one connection and no other,
  and every statement of the run was sent on it.
\<close>

theorem single_connection_reused:
  "connections (snd (startup env)) = [fst (startup env)] \<and>
   connections (snd (handler db d rq res s)) = connections s \<and>
   connections (snd (snd (run etag env reqs))) = [fst (startup env)] \<and>
   map fst (issued (snd (snd (run etag env reqs)))) =
     replicate (length (issued (snd (snd (run etag env reqs))))) (fst (startup env))"
proof -
  have a: "connections (snd (startup env)) = [fst (startup env)]"
    by (simp add: startup_eq)
  have b: "connections (snd (handler db d rq res s)) = connections s"
    by (simp add: handler_eq)
  have c: "connections (snd (snd (run etag env reqs))) = [fst (startup env)]"
    by (subst run_final) (simp add: a)
  have d: "map fst (issued (snd (snd (run etag env reqs)))) =
     replicate (length (issued (snd (snd (run etag env reqs))))) (fst (startup env))"
    by (subst (1 2) run_final) simp
  from a b c d show ?thesis by blast
qed

text \<open>The sample traffic: one connection, used three times.\<close>

theorem single_connection_reused_witness:
  "length (connections (snd (snd (run sample_etag Map.empty sample_requests)))) = 1 \<and>
   map (ident \<circ> fst) (issued (snd (snd (run sample_etag Map.empty sample_requests)))) = [0, 0, 0]"
  using single_connection_reused
          [where etag = sample_etag and env = Map.empty and reqs = sample_requests]
  by (simp add: sample_run startup_eq numeral_3_eq_3)

text \<open>
  C5. The port is the constant 3000: the server listens on it after start-up whatever the
  environment variables are, handling a request does not change it, and it is still the
  port at the end of any run.
\<close>

theorem fixed_port:
  "PORT = 3000 \<and>
   listening (snd (startup env)) = Some 3000 \<and>
   listening (snd (handler db d rq res s)) = listening s \<and>
   listening (snd (snd (run etag env reqs))) = Some 3000"
proof -
  have a: "listening (snd (startup env)) = Some 3000"
    by (simp add: startup_eq)
  have b: "listening (snd (handler db d rq res s)) = listening s"
    by (simp add: handler_eq)
  have c: "listening (snd (snd (run etag env reqs))) = Some 3000"
    by (subst run_final) (simp add: a)
  from a b c show ?thesis by (simp add: PORT_def)
qed

text \<open>An environment that sets \<^verbatim>\<open>PORT\<close> changes nothing.\<close>

theorem fixed_port_witness:
  "listening (snd (startup [''PORT'' \<mapsto> ''8080''])) = Some 3000 \<and>
   listening (snd (snd (run sample_etag [''PORT'' \<mapsto> ''8080''] sample_requests))) = Some 3000"
  using fixed_port [where env = "[''PORT'' \<mapsto> ''8080'']" and etag = sample_etag
                      and reqs = sample_requests]
  by simp

text \<open>
  C6. The connection is created with the host \<^verbatim>\<open>db\<close>, the user \<^verbatim>\<open>myuser\<close>, the
  password \<^verbatim>\<open>mypassword\<close> and the database \<^verbatim>\<open>mydb\<close>, written in the program. They
  do not depend on the environment: two starts with different environments give the same
  connection and the same state, and the settings are the same at the end of any run.
\<close>

theorem hardcoded_connection_settings:
  "config (fst (startup env)) =
     \<lparr>host = ''db'', user = ''myuser'', password = ''mypassword'', database = ''mydb''\<rparr> \<and>
   map config (connections (snd (startup env))) =
     [\<lparr>host = ''db'', user = ''myuser'', password = ''mypassword'', database = ''mydb''\<rparr>] \<and>
   map config (connections (snd (snd (run etag env reqs)))) =
     [\<lparr>host = ''db'', user = ''myuser'', password = ''mypassword'', database = ''mydb''\<rparr>] \<and>
   startup env = startup env'"
proof -
  have c: "map config (connections (snd (snd (run etag env reqs)))) =
     [\<lparr>host = ''db'', user = ''myuser'', password = ''mypassword'', database = ''mydb''\<rparr>]"
    by (subst run_final) (simp add: startup_eq)
  then show ?thesis by (simp add: startup_eq)
qed

text \<open>An environment that names another host and password changes nothing.\<close>

theorem hardcoded_connection_settings_witness:
  "host (config (fst (startup [''DB_HOST'' \<mapsto> ''localhost'', ''DB_PASSWORD'' \<mapsto> ''secret'']))) = ''db'' \<and>
   password (config (fst (startup [''DB_HOST'' \<mapsto> ''localhost'', ''DB_PASSWORD'' \<mapsto> ''secret'']))) =
     ''mypassword'' \<and>
   startup [''DB_HOST'' \<mapsto> ''localhost'', ''DB_PASSWORD'' \<mapsto> ''secret''] = startup Map.empty"
  using hardcoded_connection_settings
          [where env = "[''DB_HOST'' \<mapsto> ''localhost'', ''DB_PASSWORD'' \<mapsto> ''secret'']"
             and env' = Map.empty and etag = sample_etag and reqs = sample_requests]
  by (simp add: startup_eq)

section \<open>The outcomes of a request\<close>

text \<open>
  C7, as stated, fails. The claim is that a \<^verbatim>\<open>GET /\<close> ends either with a 200 response
  carrying the welcome string or with an unhandled error, and never with a response of
  another status. The request of a browser that reloads the page is answered with status
  304 and an empty body; and a request whose query the database never answers ends with
  neither a response nor an error.
\<close>

theorem not_only_two_outcomes:
  "req_method conditional_request = ''GET'' \<and> url conditional_request = ''/'' \<and>
   status_and_body
     (fst (handler (fst (startup Map.empty)) db_up conditional_request
             (new_response sample_etag conditional_request) (snd (startup Map.empty)))) =
     Some (304, Some (JStr [])) \<and>
   (304 :: nat) \<noteq> 200 \<and>
   fst (handler (fst (startup Map.empty)) db_silent a_request
          (new_response sample_etag a_request) (snd (startup Map.empty))) = None"
proof -
  have g: "req_method conditional_request = ''GET''" "url conditional_request = ''/''"
    by (simp_all add: conditional_request_def)
  from success_response [where d = db_up and db = "fst (startup Map.empty)"
                           and rq = conditional_request and etag = sample_etag
                           and s = "snd (startup Map.empty)"]
       up_succeeds [of "fst (startup Map.empty)"] g reload_fresh
  have a: "status_and_body
     (fst (handler (fst (startup Map.empty)) db_up conditional_request
             (new_response sample_etag conditional_request) (snd (startup Map.empty)))) =
     Some (304, Some (JStr []))"
    by (simp add: status_and_body_def)
  have b: "fst (handler (fst (startup Map.empty)) db_silent a_request
          (new_response sample_etag a_request) (snd (startup Map.empty))) = None"
    by (simp add: handler_eq db_silent_def)
  from g a b show ?thesis by simp
qed

text \<open>
  C7, amended. A \<^verbatim>\<open>GET /\<close> ends in exactly one of four ways: with no response and no
  error, when the database never answers; with the error thrown and no response, when the
  query fails; with status 200 and the welcome string, when the query succeeds and the
  request is not a fresh conditional request; with status 304 and an empty body, when the
  query succeeds and the request is fresh. The four cases exclude each other. Whatever the
  database hands to the callback and whatever the method, a response that is sent has
  status 200 or 304: the program never produces an error response.
\<close>

theorem request_outcomes:
  "(fst (handler db d rq (new_response etag rq) s) = None \<or>
    (\<exists>e. fst (handler db d rq (new_response etag rq) s) = Some (Inl e)) \<or>
    (\<exists>res. fst (handler db d rq (new_response etag rq) s) = Some (Inr res) \<and>
           (statusCode res = 200 \<or> statusCode res = 304))) \<and>
   (d db QUERY = None \<longrightarrow> fst (handler db d rq (new_response etag rq) s) = None) \<and>
   (d db QUERY = Some (err, results) \<and> truthy err \<longrightarrow>
      fst (handler db d rq (new_response etag rq) s) = Some (Inl (Thrown err))) \<and>
   (succeeds QUERY (d db QUERY) \<and> req_method rq = ''GET'' \<and>
    \<not> fresh (headers rq) (etag (JStr ''Welcome to the 2-tier Dockerized App'')) \<longrightarrow>
      fst (handler db d rq (new_response etag rq) s) =
        Some (Inr \<lparr>res_req = rq, res_etag = etag, statusCode = 200,
                   sent = Some (JStr ''Welcome to the 2-tier Dockerized App'')\<rparr>)) \<and>
   (succeeds QUERY (d db QUERY) \<and> req_method rq = ''GET'' \<and>
    fresh (headers rq) (etag (JStr ''Welcome to the 2-tier Dockerized App'')) \<longrightarrow>
      fst (handler db d rq (new_response etag rq) s) =
        Some (Inr \<lparr>res_req = rq, res_etag = etag, statusCode = 304, sent = Some (JStr [])\<rparr>)) \<and>
   \<not> (succeeds QUERY (d db QUERY) \<and> d db QUERY = None) \<and>
   \<not> (succeeds QUERY (d db QUERY) \<and> d db QUERY = Some (err, results) \<and> truthy err)"
proof -
  let ?out = "fst (handler db d rq (new_response etag rq) s)"
  have a: "?out = None \<or> (\<exists>e. ?out = Some (Inl e)) \<or>
           (\<exists>res. ?out = Some (Inr res) \<and> (statusCode res = 200 \<or> statusCode res = 304))"
  proof (cases "d db QUERY")
    case None
    then show ?thesis by (simp add: handler_eq)
  next
    case (Some r)
    show ?thesis
    proof (cases "query_callback (new_response etag rq) (fst r) (snd r)")
      case (Inl e)
      with Some show ?thesis by (simp add: handler_eq)
    next
      case (Inr res)
      from callback_status [OF Inr] Some Inr show ?thesis by (simp add: handler_eq)
    qed
  qed
  have b: "d db QUERY = None \<longrightarrow> ?out = None"
    by (simp add: handler_eq)
  have c: "d db QUERY = Some (err, results) \<and> truthy err \<longrightarrow> ?out = Some (Inl (Thrown err))"
    by (simp add: handler_eq callback_error)
  have r: "?out =
           Some (Inr (if fresh (headers rq) (etag (JStr ''Welcome to the 2-tier Dockerized App''))
                      then \<lparr>res_req = rq, res_etag = etag, statusCode = 304, sent = Some (JStr [])\<rparr>
                      else \<lparr>res_req = rq, res_etag = etag, statusCode = 200,
                             sent = Some (JStr ''Welcome to the 2-tier Dockerized App'')\<rparr>))"
    if "succeeds QUERY (d db QUERY)" "req_method rq = ''GET''"
    using that by (rule success_response)
  have e: "succeeds QUERY (d db QUERY) \<and> req_method rq = ''GET'' \<and>
    \<not> fresh (headers rq) (etag (JStr ''Welcome to the 2-tier Dockerized App'')) \<longrightarrow>
      ?out = Some (Inr \<lparr>res_req = rq, res_etag = etag, statusCode = 200,
                         sent = Some (JStr ''Welcome to the 2-tier Dockerized App'')\<rparr>)"
    using r by simp
  have f: "succeeds QUERY (d db QUERY) \<and> req_method rq = ''GET'' \<and>
    fresh (headers rq) (etag (JStr ''Welcome to the 2-tier Dockerized App'')) \<longrightarrow>
      ?out = Some (Inr \<lparr>res_req = rq, res_etag = etag, statusCode = 304, sent = Some (JStr [])\<rparr>)"
    using r by simp
  have g: "\<not> (succeeds QUERY (d db QUERY) \<and> d db QUERY = None)"
    by (auto simp: succeeds_def split: option.splits)
  have h: "\<not> (succeeds QUERY (d db QUERY) \<and> d db QUERY = Some (err, results) \<and> truthy err)"
    by (auto simp: succeeds_def split: option.splits)
  from a b c e f g h show ?thesis by blast
qed

text \<open>
  The four ways: the database silent, the database down, a first visit and a reload with
  the database up; and a run in which the first request is never answered and the next
  two are.
\<close>

theorem request_outcomes_witness:
  "db_silent (fst (startup Map.empty)) QUERY = None \<and>
   fst (handler (fst (startup Map.empty)) db_silent a_request (new_response sample_etag a_request)
          (snd (startup Map.empty))) = None \<and>
   db_down connect_error (fst (startup Map.empty)) QUERY = Some (connect_error, JUndefined) \<and>
   truthy connect_error \<and>
   fst (handler (fst (startup Map.empty)) (db_down connect_error) a_request
          (new_response sample_etag a_request) (snd (startup Map.empty))) =
     Some (Inl (Thrown connect_error)) \<and>
   succeeds QUERY (db_up (fst (startup Map.empty)) QUERY) \<and>
   req_method a_request = ''GET'' \<and>
   \<not> fresh (headers a_request) (sample_etag (JStr ''Welcome to the 2-tier Dockerized App'')) \<and>
   fst (handler (fst (startup Map.empty)) db_up a_request (new_response sample_etag a_request)
          (snd (startup Map.empty))) =
     Some (Inr \<lparr>res_req = a_request, res_etag = sample_etag, statusCode = 200,
                sent = Some (JStr ''Welcome to the 2-tier Dockerized App'')\<rparr>) \<and>
   req_method conditional_request = ''GET'' \<and>
   fresh (headers conditional_request) (sample_etag (JStr ''Welcome to the 2-tier Dockerized App'')) \<and>
   fst (handler (fst (startup Map.empty)) db_up conditional_request
          (new_response sample_etag conditional_request) (snd (startup Map.empty))) =
     Some (Inr \<lparr>res_req = conditional_request, res_etag = sample_etag, statusCode = 304,
                sent = Some (JStr [])\<rparr>) \<and>
   map status_and_body
     (map (map_option Inr) (fst (run sample_etag Map.empty quiet_requests))) =
     [None, Some (304, Some (JStr [])),
      Some (200, Some (JStr ''Welcome to the 2-tier Dockerized App''))]"
proof -
  have q: "map status_and_body
     (map (map_option Inr) (fst (run sample_etag Map.empty quiet_requests))) =
     [None, Some (304, Some (JStr [])),
      Some (200, Some (JStr ''Welcome to the 2-tier Dockerized App''))]"
    by (simp add: quiet_run status_and_body_def)
  have h0: "db_silent (fst (startup Map.empty)) QUERY = None"
    by (simp add: db_silent_def)
  have h1: "db_down connect_error (fst (startup Map.empty)) QUERY = Some (connect_error, JUndefined)"
    by (simp add: db_down_def)
  have h2: "truthy connect_error" by (simp add: connect_error_def)
  have h3: "succeeds QUERY (db_up (fst (startup Map.empty)) QUERY)"
    by (rule up_succeeds)
  have g: "req_method a_request = ''GET''" "req_method conditional_request = ''GET''"
    by (simp_all add: a_request_def conditional_request_def)
  have f1: "\<not> fresh (headers a_request) (sample_etag (JStr ''Welcome to the 2-tier Dockerized App''))"
    by (rule unconditional_stale) (rule plain_requests)
  have f2: "fresh (headers conditional_request) (sample_etag (JStr ''Welcome to the 2-tier Dockerized App''))"
    by (rule reload_fresh)
  note t = request_outcomes [where db = "fst (startup Map.empty)" and etag = sample_etag
                               and s = "snd (startup Map.empty)"]
  from h0 t [where d = db_silent and rq = a_request]
  have a: "fst (handler (fst (startup Map.empty)) db_silent a_request
             (new_response sample_etag a_request) (snd (startup Map.empty))) = None"
    by blast
  from h1 h2 t [where d = "db_down connect_error" and rq = a_request and err = connect_error
                  and results = JUndefined]
  have b: "fst (handler (fst (startup Map.empty)) (db_down connect_error) a_request
             (new_response sample_etag a_request) (snd (startup Map.empty))) =
           Some (Inl (Thrown connect_error))"
    by blast
  from h3 g f1 t [where d = db_up and rq = a_request]
  have c: "fst (handler (fst (startup Map.empty)) db_up a_request (new_response sample_etag a_request)
             (snd (startup Map.empty))) =
           Some (Inr \<lparr>res_req = a_request, res_etag = sample_etag, statusCode = 200,
                      sent = Some (JStr ''Welcome to the 2-tier Dockerized App'')\<rparr>)"
    by blast
  from h3 g f2 t [where d = db_up and rq = conditional_request]
  have d: "fst (handler (fst (startup Map.empty)) db_up conditional_request
             (new_response sample_etag conditional_request) (snd (startup Map.empty))) =
           Some (Inr \<lparr>res_req = conditional_request, res_etag = sample_etag, statusCode = 304,
                      sent = Some (JStr [])\<rparr>)"
    by blast
  from h0 a h1 h2 b h3 g f1 c f2 d q show ?thesis by blast
qed

text \<open>
  C8. The success branch reads \<^verbatim>\<open>results[0].message\<close> with no guard. When the first
  row exists and has a \<^verbatim>\<open>message\<close> field, that field is given to \<^verbatim>\<open>res.send\<close>. When
  the query succeeds with an empty result set, the first row is \<^verbatim>\<open>undefined\<close>, reading
  its field raises and the request gets no response. When the first row has no such
  field, what is given to \<^verbatim>\<open>res.send\<close> is \<^verbatim>\<open>undefined\<close>. Conversely, whenever the
  branch produces a response, the result set had a first row and the response is what
  \<^verbatim>\<open>res.send\<close> makes of its \<^verbatim>\<open>message\<close>; and when that response carries a defined
  body (it is not a 304 or 204 and the request is not a \<^verbatim>\<open>HEAD\<close>), the body is that
  \<^verbatim>\<open>message\<close>.
\<close>

theorem unguarded_first_row:
  "get_prop (JArr []) (Index 0) = Inr JUndefined \<and>
   query_callback res JNull (JArr []) = Inl TypeError \<and>
   (d db QUERY = Some (JNull, JArr []) \<longrightarrow> fst (handler db d rq res s) = Some (Inl TypeError)) \<and>
   (map_of fs (Name ''message'') = Some m \<longrightarrow>
      query_callback res JNull (JArr (JObj fs # rows)) = Inr (send m res)) \<and>
   (map_of fs (Name ''message'') = None \<longrightarrow>
      query_callback res JNull (JArr (JObj fs # rows)) = Inr (send JUndefined res)) \<and>
   (query_callback res JNull results = Inr res' \<longrightarrow>
      (\<exists>row v. get_prop results (Index 0) = Inr row \<and> row \<noteq> JUndefined \<and>
               get_prop row (Name ''message'') = Inr v \<and> res' = send v res)) \<and>
   (query_callback res JNull results = Inr res' \<and> sent res' \<noteq> Some JUndefined \<and>
    statusCode res' \<noteq> 304 \<and> statusCode res' \<noteq> 204 \<and> req_method (res_req res) \<noteq> ''HEAD'' \<longrightarrow>
      (\<exists>row v. get_prop results (Index 0) = Inr row \<and> row \<noteq> JUndefined \<and>
               get_prop row (Name ''message'') = Inr v \<and> sent res' = Some v))"
proof -
  have a: "query_callback res JNull (JArr []) = Inl TypeError"
    by (simp add: query_callback_def)
  have b: "d db QUERY = Some (JNull, JArr []) \<longrightarrow> fst (handler db d rq res s) = Some (Inl TypeError)"
    by (simp add: handler_eq a)
  have c: "map_of fs (Name ''message'') = Some m \<longrightarrow>
      query_callback res JNull (JArr (JObj fs # rows)) = Inr (send m res)"
    by (simp add: callback_first_row)
  have d: "map_of fs (Name ''message'') = None \<longrightarrow>
      query_callback res JNull (JArr (JObj fs # rows)) = Inr (send JUndefined res)"
    by (simp add: callback_first_row)
  have conv: "\<exists>row v. get_prop results (Index 0) = Inr row \<and> row \<noteq> JUndefined \<and>
               get_prop row (Name ''message'') = Inr v \<and> res' = send v res"
    if h: "query_callback res JNull results = Inr res'"
  proof -
    have "\<not> truthy JNull" by simp
    from callback_sent [OF this h] obtain row v
      where r: "get_prop results (Index 0) = Inr row"
        and m: "get_prop row (Name ''message'') = Inr v" and s: "res' = send v res"
      by blast
    from m have "row \<noteq> JUndefined" by auto
    with r m s show ?thesis by blast
  qed
  have e: "query_callback res JNull results = Inr res' \<longrightarrow>
      (\<exists>row v. get_prop results (Index 0) = Inr row \<and> row \<noteq> JUndefined \<and>
               get_prop row (Name ''message'') = Inr v \<and> res' = send v res)"
    using conv by blast
  have f: "query_callback res JNull results = Inr res' \<and> sent res' \<noteq> Some JUndefined \<and>
    statusCode res' \<noteq> 304 \<and> statusCode res' \<noteq> 204 \<and> req_method (res_req res) \<noteq> ''HEAD'' \<longrightarrow>
      (\<exists>row v. get_prop results (Index 0) = Inr row \<and> row \<noteq> JUndefined \<and>
               get_prop row (Name ''message'') = Inr v \<and> sent res' = Some v)"
  proof
    assume h: "query_callback res JNull results = Inr res' \<and> sent res' \<noteq> Some JUndefined \<and>
      statusCode res' \<noteq> 304 \<and> statusCode res' \<noteq> 204 \<and> req_method (res_req res) \<noteq> ''HEAD''"
    with conv obtain row v
      where r: "get_prop results (Index 0) = Inr row" "row \<noteq> JUndefined"
               "get_prop row (Name ''message'') = Inr v" and s: "res' = send v res"
      by blast
    from h s have "sent res' = Some v" by (simp add: send_body)
    with r show "\<exists>row v. get_prop results (Index 0) = Inr row \<and> row \<noteq> JUndefined \<and>
               get_prop row (Name ''message'') = Inr v \<and> sent res' = Some v"
      by blast
  qed
  from a b c d e f show ?thesis by simp
qed

text \<open>
  An empty result set; a row with a \<^verbatim>\<open>message\<close>, which is found again from the response;
  and a row without one. The request is a bare \<^verbatim>\<open>GET /\<close>.
\<close>

theorem unguarded_first_row_witness:
  "db_reply (JNull, JArr []) (fst (startup Map.empty)) QUERY = Some (JNull, JArr []) \<and>
   fst (handler (fst (startup Map.empty)) (db_reply (JNull, JArr [])) a_request
          (new_response sample_etag a_request) (snd (startup Map.empty))) = Some (Inl TypeError) \<and>
   map_of [(Name ''message'', JStr ''hello'')] (Name ''message'') = Some (JStr ''hello'') \<and>
   query_callback (new_response sample_etag a_request) JNull
       (JArr [JObj [(Name ''message'', JStr ''hello'')]]) =
     Inr \<lparr>res_req = a_request, res_etag = sample_etag, statusCode = 200,
          sent = Some (JStr ''hello'')\<rparr> \<and>
   (\<exists>row. get_prop (JArr [JObj [(Name ''message'', JStr ''hello'')]]) (Index 0) = Inr row \<and>
          row \<noteq> JUndefined \<and> get_prop row (Name ''message'') = Inr (JStr ''hello'')) \<and>
   map_of [(Name ''id'', JStr ''7'')] (Name ''message'') = None \<and>
   query_callback (new_response sample_etag a_request) JNull (JArr [JObj [(Name ''id'', JStr ''7'')]]) =
     Inr \<lparr>res_req = a_request, res_etag = sample_etag, statusCode = 200, sent = Some JUndefined\<rparr>"
proof -
  let ?res = "new_response sample_etag a_request"
  let ?hello = "\<lparr>res_req = a_request, res_etag = sample_etag, statusCode = 200,
                 sent = Some (JStr ''hello'')\<rparr>"
  have h1: "db_reply (JNull, JArr []) (fst (startup Map.empty)) QUERY = Some (JNull, JArr [])"
    by (simp add: db_reply_def)
  have h2: "map_of [(Name ''message'', JStr ''hello'')] (Name ''message'') = Some (JStr ''hello'')"
    by simp
  have h3: "map_of [(Name ''id'', JStr ''7'')] (Name ''message'') = None"
    by simp
  have g: "req_method a_request = ''GET''" by (simp add: a_request_def)
  have s1: "send (JStr ''hello'') ?res = ?hello"
    using g unconditional_stale [OF plain_requests(1)] by (rule send_string_stale)
  have s2: "send JUndefined ?res =
              \<lparr>res_req = a_request, res_etag = sample_etag, statusCode = 200, sent = Some JUndefined\<rparr>"
    using unconditional_stale [OF plain_requests(1)]
    by (simp add: send_def new_response_def req_fresh_def a_request_def)
  note t1 = unguarded_first_row
              [where res = ?res and d = "db_reply (JNull, JArr [])"
                 and db = "fst (startup Map.empty)" and rq = a_request
                 and s = "snd (startup Map.empty)"
                 and fs = "[(Name ''message'', JStr ''hello'')]" and m = "JStr ''hello''"
                 and rows = "[]"
                 and results = "JArr [JObj [(Name ''message'', JStr ''hello'')]]"
                 and res' = ?hello]
  note t2 = unguarded_first_row
              [where res = ?res and fs = "[(Name ''id'', JStr ''7'')]" and rows = "[]"]
  from t1 h1 have a: "fst (handler (fst (startup Map.empty)) (db_reply (JNull, JArr [])) a_request
          ?res (snd (startup Map.empty))) = Some (Inl TypeError)"
    by blast
  from t1 h2 have b: "query_callback ?res JNull (JArr [JObj [(Name ''message'', JStr ''hello'')]]) =
     Inr ?hello"
    by (simp add: s1)
  have p: "sent ?hello \<noteq> Some JUndefined \<and> statusCode ?hello \<noteq> 304 \<and> statusCode ?hello \<noteq> 204 \<and>
           req_method (res_req ?res) \<noteq> ''HEAD''"
    by (simp add: new_response_def a_request_def)
  from t1 b p have c: "\<exists>row. get_prop (JArr [JObj [(Name ''message'', JStr ''hello'')]]) (Index 0) = Inr row \<and>
          row \<noteq> JUndefined \<and> get_prop row (Name ''message'') = Inr (JStr ''hello'')"
    by simp
  from t2 h3 have d: "query_callback ?res JNull (JArr [JObj [(Name ''id'', JStr ''7'')]]) =
     Inr \<lparr>res_req = a_request, res_etag = sample_etag, statusCode = 200, sent = Some JUndefined\<rparr>"
    by (simp add: s2)
  from h1 a h2 b c h3 d show ?thesis by blast
qed

section \<open>What a request can and cannot influence\<close>

text \<open>
  C9, as stated, fails. The claim is that any two successful requests get the same status
  and body, whatever the requests contain. A first visit and a reload, both with the
  query succeeding, differ in one header and get different answers: 200 with the welcome
  string, and 304 with an empty body.
\<close>

theorem reload_differs_from_first_visit:
  "succeeds QUERY (db_up (fst (startup Map.empty)) QUERY) \<and>
   status_and_body
     (fst (handler (fst (startup Map.empty)) db_up a_request
             (new_response sample_etag a_request) (snd (startup Map.empty)))) =
     Some (200, Some (JStr ''Welcome to the 2-tier Dockerized App'')) \<and>
   status_and_body
     (fst (handler (fst (startup Map.empty)) db_up conditional_request
             (new_response sample_etag conditional_request) (snd (startup Map.empty)))) =
     Some (304, Some (JStr [])) \<and>
   status_and_body
     (fst (handler (fst (startup Map.empty)) db_up a_request
             (new_response sample_etag a_request) (snd (startup Map.empty)))) \<noteq>
   status_and_body
     (fst (handler (fst (startup Map.empty)) db_up conditional_request
             (new_response sample_etag conditional_request) (snd (startup Map.empty))))"
proof -
  have g: "req_method a_request = ''GET''" "req_method conditional_request = ''GET''"
    by (simp_all add: a_request_def conditional_request_def)
  have f1: "\<not> fresh (headers a_request) (sample_etag (JStr ''Welcome to the 2-tier Dockerized App''))"
    by (rule unconditional_stale) (rule plain_requests)
  from success_response [where d = db_up and db = "fst (startup Map.empty)"
                           and rq = a_request and etag = sample_etag
                           and s = "snd (startup Map.empty)"]
       success_response [where d = db_up and db = "fst (startup Map.empty)"
                           and rq = conditional_request and etag = sample_etag
                           and s = "snd (startup Map.empty)"]
       up_succeeds [of "fst (startup Map.empty)"] g f1 reload_fresh
  show ?thesis by (simp add: status_and_body_def)
qed

text \<open>
  C9, amended. The code of the handler reads nothing of the request: the statement it
  sends and the state it leaves are the same for any two requests. The response depends
  on the request only through \<^verbatim>\<open>res.send\<close>, which reads the method and the headers of a
  conditional request: two \<^verbatim>\<open>GET\<close> requests whose queries succeed get the same status
  and body when both are fresh or neither is, even at different times, in different
  states and over different connections. In particular two requests without
  \<^verbatim>\<open>If-None-Match\<close> and \<^verbatim>\<open>If-Modified-Since\<close> both get 200 and the welcome string,
  whatever else they contain.
\<close>

theorem response_depends_only_on_freshness:
  "handler db d rq1 res s = handler db d rq2 res s \<and>
   snd (handler db d rq1 res1 s) = snd (handler db d rq2 res2 s) \<and>
   (succeeds QUERY (d1 db1 QUERY) \<and> succeeds QUERY (d2 db2 QUERY) \<and>
    req_method rq1 = ''GET'' \<and> req_method rq2 = ''GET'' \<and>
    fresh (headers rq1) (etag (JStr ''Welcome to the 2-tier Dockerized App'')) =
    fresh (headers rq2) (etag (JStr ''Welcome to the 2-tier Dockerized App'')) \<longrightarrow>
      status_and_body (fst (handler db1 d1 rq1 (new_response etag rq1) s1)) =
      status_and_body (fst (handler db2 d2 rq2 (new_response etag rq2) s2))) \<and>
   (succeeds QUERY (d1 db1 QUERY) \<and> succeeds QUERY (d2 db2 QUERY) \<and>
    req_method rq1 = ''GET'' \<and> req_method rq2 = ''GET'' \<and> unconditional rq1 \<and> unconditional rq2 \<longrightarrow>
      status_and_body (fst (handler db1 d1 rq1 (new_response etag rq1) s1)) =
        Some (200, Some (JStr ''Welcome to the 2-tier Dockerized App'')) \<and>
      status_and_body (fst (handler db2 d2 rq2 (new_response etag rq2) s2)) =
        Some (200, Some (JStr ''Welcome to the 2-tier Dockerized App'')))"
proof -
  have a: "handler db d rq1 res s = handler db d rq2 res s"
    by (simp add: handler_eq)
  have b: "snd (handler db d rq1 res1 s) = snd (handler db d rq2 res2 s)"
    by (simp add: handler_state)
  have r: "status_and_body (fst (handler db' d' rq (new_response etag rq) s')) =
             (if fresh (headers rq) (etag (JStr ''Welcome to the 2-tier Dockerized App''))
              then Some (304, Some (JStr []))
              else Some (200, Some (JStr ''Welcome to the 2-tier Dockerized App'')))"
    if "succeeds QUERY (d' db' QUERY)" "req_method rq = ''GET''" for db' d' rq s'
    using success_response [where d = d' and db = db' and rq = rq and etag = etag and s = s'] that
    by (simp add: status_and_body_def)
  have c: "succeeds QUERY (d1 db1 QUERY) \<and> succeeds QUERY (d2 db2 QUERY) \<and>
    req_method rq1 = ''GET'' \<and> req_method rq2 = ''GET'' \<and>
    fresh (headers rq1) (etag (JStr ''Welcome to the 2-tier Dockerized App'')) =
    fresh (headers rq2) (etag (JStr ''Welcome to the 2-tier Dockerized App'')) \<longrightarrow>
      status_and_body (fst (handler db1 d1 rq1 (new_response etag rq1) s1)) =
      status_and_body (fst (handler db2 d2 rq2 (new_response etag rq2) s2))"
    by (simp add: r)
  have e: "succeeds QUERY (d1 db1 QUERY) \<and> succeeds QUERY (d2 db2 QUERY) \<and>
    req_method rq1 = ''GET'' \<and> req_method rq2 = ''GET'' \<and> unconditional rq1 \<and> unconditional rq2 \<longrightarrow>
      status_and_body (fst (handler db1 d1 rq1 (new_response etag rq1) s1)) =
        Some (200, Some (JStr ''Welcome to the 2-tier Dockerized App'')) \<and>
      status_and_body (fst (handler db2 d2 rq2 (new_response etag rq2) s2)) =
        Some (200, Some (JStr ''Welcome to the 2-tier Dockerized App''))"
    by (simp add: r unconditional_stale)
  from a b c e show ?thesis by blast
qed

text \<open>
  A bare request, then a request with a query string, another header and a body, handled
  in the state the first one left.
\<close>

theorem response_depends_only_on_freshness_witness:
  "succeeds QUERY (db_up (fst (startup Map.empty)) QUERY) \<and>
   req_method a_request = ''GET'' \<and> req_method other_request = ''GET'' \<and>
   unconditional a_request \<and> unconditional other_request \<and>
   status_and_body
     (fst (handler (fst (startup Map.empty)) db_up a_request (new_response sample_etag a_request)
             (snd (startup Map.empty)))) =
     Some (200, Some (JStr ''Welcome to the 2-tier Dockerized App'')) \<and>
   status_and_body
     (fst (handler (fst (startup Map.empty)) db_up other_request
             (new_response sample_etag other_request)
             (snd (handler (fst (startup Map.empty)) db_up a_request
                     (new_response sample_etag a_request) (snd (startup Map.empty)))))) =
     Some (200, Some (JStr ''Welcome to the 2-tier Dockerized App''))"
proof -
  have h: "succeeds QUERY (db_up (fst (startup Map.empty)) QUERY)"
    by (rule up_succeeds)
  have g: "req_method a_request = ''GET''" "req_method other_request = ''GET''"
    by (simp_all add: a_request_def other_request_def)
  note t = response_depends_only_on_freshness
             [where ?d1.0 = db_up and ?d2.0 = db_up and ?db1.0 = "fst (startup Map.empty)"
                and ?db2.0 = "fst (startup Map.empty)" and ?rq1.0 = a_request
                and ?rq2.0 = other_request and etag = sample_etag
                and ?s1.0 = "snd (startup Map.empty)"
                and ?s2.0 = "snd (handler (fst (startup Map.empty)) db_up a_request
                     (new_response sample_etag a_request) (snd (startup Map.empty)))",
              THEN conjunct2, THEN conjunct2, THEN conjunct2]
  from h g plain_requests t show ?thesis by blast
qed

text \<open>
  C10. Handling a request changes no state of the program: the connections, the routes,
  the port and the console are as before, and the only thing added is the one statement
  sent, on the connection the handler was given. That statement is a \<^verbatim>\<open>SELECT\<close> of a
  string literal under an alias, which names no table. Over a whole run, the state at the
  end is the state after start-up but for the statements sent.
\<close>

theorem handler_frame:
  "connections (snd (handler db d rq res s)) = connections s \<and>
   routes (snd (handler db d rq res s)) = routes s \<and>
   listening (snd (handler db d rq res s)) = listening s \<and>
   console (snd (handler db d rq res s)) = console s \<and>
   issued (snd (handler db d rq res s)) = issued s @ [(db, QUERY)] \<and>
   literal_select QUERY = Some (''message'', ''Welcome to the 2-tier Dockerized App'') \<and>
   snd (snd (run etag env reqs)) =
     (snd (startup env))\<lparr>issued := issued (snd (snd (run etag env reqs)))\<rparr>"
proof -
  have "snd (snd (run etag env reqs)) =
          (snd (startup env))\<lparr>issued := issued (snd (snd (run etag env reqs)))\<rparr>"
    by (subst (1 2) run_final) simp
  then show ?thesis by (simp add: handler_eq QUERY_literal)
qed

text \<open>The sample traffic leaves the connection, the route and the port as start-up set them.\<close>

theorem handler_frame_witness:
  "map ident (connections (snd (snd (run sample_etag Map.empty sample_requests)))) = [0] \<and>
   routes (snd (snd (run sample_etag Map.empty sample_requests))) = [(''GET'', ''/'')] \<and>
   listening (snd (snd (run sample_etag Map.empty sample_requests))) = Some 3000 \<and>
   length (issued (snd (snd (run sample_etag Map.empty sample_requests)))) = 3"
  using handler_frame [where etag = sample_etag and env = Map.empty and reqs = sample_requests]
  by (simp add: sample_run startup_eq)

end
